theory Spec2Isabelle
  imports Main "HOL-Library.Word"
begin

section \<open>The request state of regia and its handler chain\<close>

text \<open>
  The Go package keeps one \<^verbatim>\<open>Context\<close> per request. Its methods mutate the struct through
  a pointer; here every method takes the state and returns the new one. A Go panic is a
  value of the result type, carrying the state as the panic left it, because the deferred
  \<^verbatim>\<open>recover\<close> of \<^verbatim>\<open>start\<close> goes on with that very struct.

  Interface values (\<^verbatim>\<open>Exit\<close>, \<^verbatim>\<open>Parser\<close>) are taken to be non-nil. The validator and the
  parser slice are fields that the engine may leave unset, so they are options
  (\<open>None\<close> is Go's nil).
\<close>

subsection \<open>Data\<close>

type_synonym u8 = "8 word"

text \<open>Go's \<^verbatim>\<open>error\<close> values: the sentinel \<^verbatim>\<open>ParseError{}\<close>, or any other error.\<close>

datatype error = ParseError | OtherError string

text \<open>What the code reads of \<^verbatim>\<open>*http.Request\<close>: the Content-Type header and the URL's raw query.\<close>

record request =
  Header_ContentType :: string
  URL_RawQuery :: string

text \<open>\<^verbatim>\<open>url.Values\<close>: keys with their lists of values.\<close>

type_synonym url_Values = "(string \<times> string list) list"

text \<open>
  The interface \<^verbatim>\<open>Parser\<close>: \<^verbatim>\<open>Match(context)\<close> and \<^verbatim>\<open>Parse(context, v)\<close>. The destination
  \<^verbatim>\<open>v interface{}\<close> is a value of an arbitrary type \<open>'v\<close>; decoding returns the error and the
  destination as filled. A parser sees the request of the state.
\<close>

record 'v parser =
  Match :: "request \<Rightarrow> bool"
  Parse :: "request \<Rightarrow> 'v \<Rightarrow> error option \<times> 'v"

text \<open>
  A \<^verbatim>\<open>HandleFunc\<close> is Go code that receives the state and calls its methods. It is modelled
  by the sequence of method calls it makes. An \<^verbatim>\<open>Exit\<close> value is modelled by what its
  method \<^verbatim>\<open>Exit(c)\<close> does with the state, again a sequence of calls.
\<close>

datatype 'v action =
    CallNext
  | CallAbort
  | CallAbortWith "'v exit"
  | CallSetAbort "'v exit"
  | CallPanic string
  | CallAddParser "'v parser list"
  | CallData 'v
  | CallEscape
and 'v exit = ExitFunc (Exit_body: "'v action list")

type_synonym 'v HandleFunc = "'v action list"

text \<open>
  The value a panic unwinds with: an \<^verbatim>\<open>Exit\<close> (raised by \<^verbatim>\<open>AbortWith\<close>), or anything else
  (a handler's own panic, or a runtime error of Go such as an index out of range).
\<close>

datatype 'v panic_val = ExitSignal "'v exit" | Fault string

text \<open>The fields of \<^verbatim>\<open>Engine\<close> that \<^verbatim>\<open>init\<close> and \<^verbatim>\<open>Data\<close> read (the struct is declared elsewhere).\<close>

record 'v engine =
  Engine_Abort :: "'v exit"
  Engine_FileStorage :: "nat option"
  Engine_MultipartMemory :: int
  Engine_ContextValidator :: "('v \<Rightarrow> error option) option"
  Engine_ContextParser :: "'v parser list option"

text \<open>Calls of parsers and of the validator, as \<^verbatim>\<open>Data\<close> makes them (observation only).\<close>

datatype pcall = MatchCall nat | ParseCall nat | ValidateCall

text \<open>
  The struct \<^verbatim>\<open>Context\<close>, field by field. The last three fields are not fields of the Go
  struct: they observe the run. \<open>invoked\<close> lists the slice index of every \<^verbatim>\<open>handle(c)\<close>
  call of \<^verbatim>\<open>Next\<close>, \<open>pcalls\<close> lists the calls that \<^verbatim>\<open>Parsers.Parse\<close> and \<^verbatim>\<open>Data\<close> make, and
  \<open>abortWrites\<close> counts the assignments to \<^verbatim>\<open>abortIndex\<close>.
\<close>

record 'v ctx =
  Request :: request
  ResponseWriter :: "string list"
  index :: u8
  abortIndex :: u8
  group :: "'v HandleFunc list"
  MultipartMemory :: int
  contextValue :: "(string \<rightharpoonup> string) option"
  Engine :: "'v engine"
  FileStorage :: "nat option"
  Parsers :: "'v parser list option"
  Validator :: "('v \<Rightarrow> error option) option"
  Params :: "(string \<times> string) list"
  abort :: "'v exit"
  matched :: bool
  escape :: bool
  queryCache :: "url_Values option"
  formCache :: "url_Values option"
  invoked :: "nat list"
  pcalls :: "pcall list"
  abortWrites :: nat

text \<open>
  How a call ends: it returns, it panics, or the model's fuel ran out before it did either
  (Go would still be running). Each carries the state reached.
\<close>

datatype 'v outcome =
    Returned "'v ctx"
  | Panicked "'v panic_val" "'v ctx"
  | OutOfFuel "'v ctx"

fun state_of :: "'v outcome \<Rightarrow> 'v ctx" where
  "state_of (Returned c) = c"
| "state_of (Panicked p c) = c"
| "state_of (OutOfFuel c) = c"

subsection \<open>Parser dispatch\<close>

text \<open>
  \<^verbatim>\<open>for _, parse := range p { if parse.Match(context) { return parse.Parse(context, v) } }
  return ParseError{}\<close>, with the position of the loop as first argument.
\<close>

fun Parsers_Parse_from :: "nat \<Rightarrow> 'v parser list \<Rightarrow> 'v ctx \<Rightarrow> 'v \<Rightarrow> error option \<times> 'v \<times> 'v ctx" where
  "Parsers_Parse_from i [] c v = (Some ParseError, v, c)"
| "Parsers_Parse_from i (p # ps) c v =
     (let c1 = c\<lparr>pcalls := pcalls c @ [MatchCall i]\<rparr> in
      if Match p (Request c1)
      then (case Parse p (Request c1) v of
              (e, v') \<Rightarrow> (e, v', c1\<lparr>pcalls := pcalls c1 @ [ParseCall i]\<rparr>))
      else Parsers_Parse_from (Suc i) ps c1 v)"

text \<open>\<^verbatim>\<open>Parsers.Parse\<close>; ranging over a nil slice runs no iteration.\<close>

definition Parsers_Parse :: "'v parser list option \<Rightarrow> 'v ctx \<Rightarrow> 'v \<Rightarrow> error option \<times> 'v \<times> 'v ctx" where
  "Parsers_Parse p c v = Parsers_Parse_from 0 (case p of None \<Rightarrow> [] | Some ps \<Rightarrow> ps) c v"

text \<open>
  The built-in parsers compare the lower-cased Content-Type header with ASCII constants.
  \<^verbatim>\<open>strings.ToLower\<close> maps the runes of the UTF-8 string: the ASCII letters \<^verbatim>\<open>A\<close> to \<^verbatim>\<open>Z\<close>, and
  the two other runes whose lower case is an ASCII letter, U+0130 (bytes C4 B0, to \<^verbatim>\<open>i\<close>) and
  U+212A (bytes E2 84 AA, to \<^verbatim>\<open>k\<close>). Every other rune outside ASCII is mapped by Go to a rune
  outside ASCII again; its bytes are kept here as they are, which no comparison with an
  ASCII constant and no search for an ASCII substring can tell apart.
  \<^verbatim>\<open>strings.Contains\<close> looks for the substring at every position. What a parser decodes is
  the work of a binder declared elsewhere, so it is a parameter.
\<close>

definition ToLower_ascii :: "char \<Rightarrow> char" where
  "ToLower_ascii ch =
     (case map_of (zip ''ABCDEFGHIJKLMNOPQRSTUVWXYZ'' ''abcdefghijklmnopqrstuvwxyz'') ch of
        None \<Rightarrow> ch
      | Some l \<Rightarrow> l)"

fun strings_ToLower :: "string \<Rightarrow> string" where
  "strings_ToLower (a # b # c # s) =
     (if a = CHR 0xE2 \<and> b = CHR 0x84 \<and> c = CHR 0xAA then CHR ''k'' # strings_ToLower s
      else if a = CHR 0xC4 \<and> b = CHR 0xB0 then CHR ''i'' # strings_ToLower (c # s)
      else ToLower_ascii a # strings_ToLower (b # c # s))"
| "strings_ToLower [a, b] =
     (if a = CHR 0xC4 \<and> b = CHR 0xB0 then [CHR ''i''] else [ToLower_ascii a, ToLower_ascii b])"
| "strings_ToLower [a] = [ToLower_ascii a]"
| "strings_ToLower [] = []"

fun strings_Contains :: "string \<Rightarrow> string \<Rightarrow> bool" where
  "strings_Contains [] substr = (substr = [])"
| "strings_Contains (x # xs) substr =
     (take (length substr) (x # xs) = substr \<or> strings_Contains xs substr)"

definition minePostForm :: string where
  "minePostForm = ''application/x-www-form-urlencoded''"

definition mimeJson :: string where
  "mimeJson = ''application/json''"

definition mimeMultipartPostForm :: string where
  "mimeMultipartPostForm = ''multipart/form-data''"

definition FormParser :: "(request \<Rightarrow> 'v \<Rightarrow> error option \<times> 'v) \<Rightarrow> 'v parser" where
  "FormParser BindForm =
     \<lparr>Match = (\<lambda>r. strings_ToLower (Header_ContentType r) = minePostForm),
      Parse = BindForm\<rparr>"

definition JsonParser :: "(request \<Rightarrow> 'v \<Rightarrow> error option \<times> 'v) \<Rightarrow> 'v parser" where
  "JsonParser BindJSON =
     \<lparr>Match = (\<lambda>r. strings_ToLower (Header_ContentType r) = mimeJson),
      Parse = BindJSON\<rparr>"

definition MultipartFormParser :: "(request \<Rightarrow> 'v \<Rightarrow> error option \<times> 'v) \<Rightarrow> 'v parser" where
  "MultipartFormParser BindMultipartForm =
     \<lparr>Match = (\<lambda>r. strings_Contains (strings_ToLower (Header_ContentType r)) mimeMultipartPostForm),
      Parse = BindMultipartForm\<rparr>"

text \<open>The calls of parsers and validator made between two states of one request.\<close>

definition calls_since :: "'v ctx \<Rightarrow> 'v ctx \<Rightarrow> pcall list" where
  "calls_since c c' = drop (length (pcalls c)) (pcalls c')"

subsection \<open>Methods of the state\<close>

text \<open>Go's \<^verbatim>\<open>append(s, p...)\<close> on a slice that may be nil: appending nothing to nil gives nil.\<close>

fun append_slice :: "'a list option \<Rightarrow> 'a list \<Rightarrow> 'a list option" where
  "append_slice None ps = (if ps = [] then None else Some ps)"
| "append_slice (Some xs) ps = Some (xs @ ps)"

definition init :: "request \<Rightarrow> string list \<Rightarrow> (string \<times> string) list \<Rightarrow> 'v HandleFunc list \<Rightarrow> 'v ctx \<Rightarrow> 'v ctx" where
  "init req writer params grp c =
     c\<lparr>Request := req,
       ResponseWriter := writer,
       Params := params,
       group := grp,
       abort := Engine_Abort (Engine c),
       FileStorage := Engine_FileStorage (Engine c),
       MultipartMemory := Engine_MultipartMemory (Engine c),
       Validator := Engine_ContextValidator (Engine c)\<rparr>"

text \<open>
  \<^verbatim>\<open>reset\<close>, with the package's \<^verbatim>\<open>syncMapPool\<close> as a list: the auxiliary map is cleared, put
  back into that pool, and the field set to nil.
\<close>

definition reset :: "'v ctx \<Rightarrow> (string \<rightharpoonup> string) list \<Rightarrow> 'v ctx \<times> (string \<rightharpoonup> string) list" where
  "reset c syncMapPool =
     (let c1 = c\<lparr>index := 0, Parsers := None, matched := False,
                 queryCache := None, formCache := None\<rparr>
      in case contextValue c1 of
           None \<Rightarrow> (c1, syncMapPool)
         | Some m \<Rightarrow> (c1\<lparr>contextValue := None\<rparr>, Map.empty # syncMapPool))"

definition IsMatched :: "'v ctx \<Rightarrow> bool" where
  "IsMatched c = matched c"

definition SetAbort :: "'v exit \<Rightarrow> 'v ctx \<Rightarrow> 'v ctx" where
  "SetAbort e c = c\<lparr>abort := e\<rparr>"

text \<open>\<^verbatim>\<open>c.abortIndex = c.index - 1; panic(exit)\<close>: the subtraction is in \<^verbatim>\<open>uint8\<close>.\<close>

definition AbortWith :: "'v exit \<Rightarrow> 'v ctx \<Rightarrow> 'v outcome" where
  "AbortWith e c =
     Panicked (ExitSignal e) (c\<lparr>abortIndex := index c - 1, abortWrites := Suc (abortWrites c)\<rparr>)"

definition Abort :: "'v ctx \<Rightarrow> 'v outcome" where
  "Abort c = AbortWith (abort c) c"

definition IsAborted :: "'v ctx \<Rightarrow> bool" where
  "IsAborted c = (abortIndex c \<noteq> 0)"

text \<open>
  \<^verbatim>\<open>AbortHandler\<close>: nil when not aborted, else \<^verbatim>\<open>c.group[c.abortIndex]\<close>, which Go checks
  against the length of the slice.
\<close>

definition AbortHandler :: "'v ctx \<Rightarrow> 'v panic_val + 'v HandleFunc option" where
  "AbortHandler c =
     (if \<not> IsAborted c then Inr None
      else if unat (abortIndex c) < length (group c)
           then Inr (Some (group c ! unat (abortIndex c)))
           else Inl (Fault ''index out of range''))"

definition Escape :: "'v ctx \<Rightarrow> 'v ctx" where
  "Escape c = c\<lparr>escape := True\<rparr>"

text \<open>
  \<^verbatim>\<open>AddParser\<close>: \<^verbatim>\<open>c.Parsers = append(c.Parsers, p...)\<close>. The field \<open>Parsers\<close> of the state is
  the list of elements this request's slice holds, and \<open>append_slice\<close> gives the elements of
  the slice that \<^verbatim>\<open>append\<close> returns. Whether \<^verbatim>\<open>append\<close> wrote them into the backing array the
  slice had, which after \<^verbatim>\<open>Data\<close> is the engine's, is not recorded in the state: the model
  with backing arrays follows.
\<close>

definition AddParser :: "'v parser list \<Rightarrow> 'v ctx \<Rightarrow> 'v ctx" where
  "AddParser p c = c\<lparr>Parsers := append_slice (Parsers c) p\<rparr>"

text \<open>
  Slices with their backing arrays. A slice header names an array, a length and a capacity
  (offset 0); the arrays are a store from addresses to cells, a cell holding an element or
  nil. A nil slice is \<open>None\<close>. \<^verbatim>\<open>append\<close> writes into the array of the slice when the capacity
  suffices, and otherwise copies into a new array at the address \<open>new\<close>. The capacity of a
  new array is left at its length: a new array is shared with nobody, so spare room in it
  changes nothing that is observed.
\<close>

record slice_header =
  slice_array :: nat
  slice_len :: nat
  slice_cap :: nat

type_synonym 'a arrays = "nat \<Rightarrow> 'a option list"

definition slice_elems :: "'a arrays \<Rightarrow> slice_header option \<Rightarrow> 'a option list" where
  "slice_elems arrs s =
     (case s of None \<Rightarrow> [] | Some h \<Rightarrow> take (slice_len h) (arrs (slice_array h)))"

definition go_append :: "nat \<Rightarrow> 'a arrays \<Rightarrow> slice_header option \<Rightarrow> 'a list \<Rightarrow> 'a arrays \<times> slice_header option" where
  "go_append new arrs s p =
     (case s of
        None \<Rightarrow>
          if p = [] then (arrs, None)
          else (arrs(new := map Some p),
                Some \<lparr>slice_array = new, slice_len = length p, slice_cap = length p\<rparr>)
      | Some h \<Rightarrow>
          if slice_len h + length p \<le> slice_cap h
          then (arrs(slice_array h :=
                       take (slice_len h) (arrs (slice_array h)) @ map Some p @
                       drop (slice_len h + length p) (arrs (slice_array h))),
                Some (h\<lparr>slice_len := slice_len h + length p\<rparr>))
          else (arrs(new := take (slice_len h) (arrs (slice_array h)) @ map Some p),
                Some \<lparr>slice_array = new, slice_len = slice_len h + length p,
                      slice_cap = slice_len h + length p\<rparr>))"

text \<open>
  \<^verbatim>\<open>AddParser\<close> on the field \<^verbatim>\<open>c.Parsers\<close> as a slice header, with the store of arrays. After
  \<^verbatim>\<open>Data\<close> fell back to the defaults, the field is a copy of the engine's header.
\<close>

definition AddParser_arrays :: "nat \<Rightarrow> 'a list \<Rightarrow> 'a arrays \<times> slice_header option \<Rightarrow> 'a arrays \<times> slice_header option" where
  "AddParser_arrays new p st = go_append new (fst st) (snd st) p"

text \<open>
  \<^verbatim>\<open>Data\<close>. The call \<^verbatim>\<open>c.Validator.Validate(v)\<close> on a nil validator is a runtime panic.
  The result is the error returned and the destination, or the panic, with the state.
\<close>

definition Data :: "'v \<Rightarrow> 'v ctx \<Rightarrow> ('v panic_val + error option \<times> 'v) \<times> 'v ctx" where
  "Data v c =
     (let c1 = (if Parsers c = None then c\<lparr>Parsers := Engine_ContextParser (Engine c)\<rparr> else c)
      in case Parsers_Parse (Parsers c1) c1 v of
           (Some err, v', c2) \<Rightarrow> (Inr (Some err, v'), c2)
         | (None, v', c2) \<Rightarrow>
             (case Validator c2 of
                None \<Rightarrow> (Inl (Fault ''nil pointer dereference''), c2)
              | Some validate \<Rightarrow>
                  (Inr (validate v', v'), c2\<lparr>pcalls := pcalls c2 @ [ValidateCall]\<rparr>)))"

text \<open>
  \<^verbatim>\<open>Query\<close>. The library call \<^verbatim>\<open>c.Request.URL.Query()\<close> is the parameter \<open>URL_Query\<close>, applied
  to the raw query; it never returns nil.
\<close>

definition Query :: "(string \<Rightarrow> url_Values) \<Rightarrow> 'v ctx \<Rightarrow> url_Values \<times> 'v ctx" where
  "Query URL_Query c =
     (case queryCache c of
        None \<Rightarrow> (let q = URL_Query (URL_RawQuery (Request c)) in (q, c\<lparr>queryCache := Some q\<rparr>))
      | Some q \<Rightarrow> (q, c))"

subsection \<open>Running the chain\<close>

text \<open>The calls of a handler other than \<^verbatim>\<open>c.Next()\<close>.\<close>

fun exec_call :: "'v action \<Rightarrow> 'v ctx \<Rightarrow> 'v outcome" where
  "exec_call CallAbort c = Abort c"
| "exec_call (CallAbortWith e) c = AbortWith e c"
| "exec_call (CallSetAbort e) c = Returned (SetAbort e c)"
| "exec_call (CallPanic s) c = Panicked (Fault s) c"
| "exec_call (CallAddParser p) c = Returned (AddParser p c)"
| "exec_call (CallData v) c =
     (case Data v c of
        (Inl p, c') \<Rightarrow> Panicked p c'
      | (Inr r, c') \<Rightarrow> Returned c')"
| "exec_call CallEscape c = Returned (Escape c)"
| "exec_call CallNext c = Returned c"

text \<open>
  \<^verbatim>\<open>Next\<close> and the handlers it calls, which may call \<^verbatim>\<open>Next\<close> again. The fuel bounds the depth
  of handler calls and is spent by each \<^verbatim>\<open>handle(c)\<close>. The loop condition compares in
  \<^verbatim>\<open>uint8\<close> with the length converted to \<^verbatim>\<open>uint8\<close>; \<^verbatim>\<open>c.group[c.index-1]\<close> subtracts in
  \<^verbatim>\<open>uint8\<close> and is checked against the length of the slice.
\<close>

fun run_handler :: "nat \<Rightarrow> 'v action list \<Rightarrow> 'v ctx \<Rightarrow> 'v outcome"
and Next :: "nat \<Rightarrow> 'v ctx \<Rightarrow> 'v outcome"
and Next_loop :: "nat \<Rightarrow> 'v ctx \<Rightarrow> 'v outcome" where
  "run_handler n [] c = Returned c"
| "run_handler n (a # as) c =
     (case (case a of CallNext \<Rightarrow> Next n c | _ \<Rightarrow> exec_call a c) of
        Returned c' \<Rightarrow> run_handler n as c'
      | r \<Rightarrow> r)"
| "Next n c = Next_loop n (c\<lparr>index := index c + 1\<rparr>)"
| "Next_loop n c =
     (if index c \<le> of_nat (length (group c))
      then (case n of
              0 \<Rightarrow> OutOfFuel c
            | Suc m \<Rightarrow>
                if unat (index c - 1) < length (group c)
                then (case run_handler m (group c ! unat (index c - 1))
                             (c\<lparr>invoked := invoked c @ [unat (index c - 1)]\<rparr>) of
                        Returned c' \<Rightarrow> Next_loop m (c'\<lparr>index := index c' + 1\<rparr>)
                      | r \<Rightarrow> r)
                else Panicked (Fault ''index out of range'') c)
      else Returned c)"

text \<open>
  The deferred \<^verbatim>\<open>recover\<close> of \<^verbatim>\<open>start\<close>: its argument is what Go's \<^verbatim>\<open>recover()\<close> returns, nil
  (\<open>None\<close>) when \<^verbatim>\<open>Next\<close> returned. An \<^verbatim>\<open>Exit\<close> has its method run on the state; anything else
  is raised again.
\<close>

fun recover :: "nat \<Rightarrow> 'v panic_val option \<Rightarrow> 'v ctx \<Rightarrow> 'v outcome" where
  "recover n None c = Returned c"
| "recover n (Some (ExitSignal e)) c = run_handler n (Exit_body e) c"
| "recover n (Some (Fault x)) c = Panicked (Fault x) c"

definition start :: "nat \<Rightarrow> 'v ctx \<Rightarrow> 'v outcome" where
  "start n c =
     (case Next n c of
        Returned c' \<Rightarrow> recover n None c'
      | Panicked p c' \<Rightarrow> recover n (Some p) c'
      | OutOfFuel c' \<Rightarrow> OutOfFuel c')"

subsection \<open>A state as the pool first makes it\<close>

text \<open>The zero value of the struct, with its engine set: what a new \<^verbatim>\<open>Context\<close> holds.\<close>

definition Context_zero :: "'v engine \<Rightarrow> 'v ctx" where
  "Context_zero e =
     \<lparr>Request = \<lparr>Header_ContentType = [], URL_RawQuery = []\<rparr>,
      ResponseWriter = [],
      index = 0,
      abortIndex = 0,
      group = [],
      MultipartMemory = 0,
      contextValue = None,
      Engine = e,
      FileStorage = None,
      Parsers = None,
      Validator = None,
      Params = [],
      abort = ExitFunc [],
      matched = False,
      escape = False,
      queryCache = None,
      formCache = None,
      invoked = [],
      pcalls = [],
      abortWrites = 0\<rparr>"

text \<open>An engine whose abort behaviour does nothing, with a validator that accepts everything.\<close>

definition Engine_plain :: "'v parser list option \<Rightarrow> 'v engine" where
  "Engine_plain ps =
     \<lparr>Engine_Abort = ExitFunc [],
      Engine_FileStorage = None,
      Engine_MultipartMemory = 33554432,
      Engine_ContextValidator = Some (\<lambda>v. None),
      Engine_ContextParser = ps\<rparr>"

text \<open>A request as the transport hands it over: the pooled state, initialised with a chain.\<close>

definition request_state :: "'v HandleFunc list \<Rightarrow> 'v ctx" where
  "request_state grp =
     init \<lparr>Header_ContentType = [], URL_RawQuery = []\<rparr> [] [] grp (Context_zero (Engine_plain None))"

text \<open>
  Three binders for the examples: each stores the name of its format in the destination.
  The engine of the examples offers the three built-in parsers, form first.
\<close>

definition Engine_builtin :: "string engine" where
  "Engine_builtin =
     Engine_plain (Some [FormParser (\<lambda>r v. (None, ''form'')),
                         JsonParser (\<lambda>r v. (None, ''json'')),
                         MultipartFormParser (\<lambda>r v. (None, ''multipart''))])"

definition json_request_state :: "string ctx" where
  "json_request_state =
     init \<lparr>Header_ContentType = ''application/json'', URL_RawQuery = ''a=1''\<rparr> [] [] []
       (Context_zero Engine_builtin)"

definition text_request_state :: "string ctx" where
  "text_request_state =
     init \<lparr>Header_ContentType = ''text/plain'', URL_RawQuery = []\<rparr> [] [] []
       (Context_zero Engine_builtin)"

text \<open>A parser that a handler may add: it takes \<^verbatim>\<open>application/xml\<close>.\<close>

definition XmlParser_example :: "string parser" where
  "XmlParser_example =
     \<lparr>Match = (\<lambda>r. strings_ToLower (Header_ContentType r) = ''application/xml''),
      Parse = (\<lambda>r v. (None, ''xml''))\<rparr>"

section \<open>Properties of parser dispatch\<close>

text \<open>
  The loop of \<^verbatim>\<open>Parsers.Parse\<close> in closed form: \<open>k\<close> parsers decline, then either parser
  \<open>k\<close> decodes or the list is exhausted.
\<close>

lemma Parsers_Parse_from_eq:
  "Parsers_Parse_from i ps c v =
     (let k = length (takeWhile (\<lambda>p. \<not> Match p (Request c)) ps) in
      if k < length ps
      then (fst (Parse (ps ! k) (Request c) v), snd (Parse (ps ! k) (Request c) v),
            c\<lparr>pcalls := pcalls c @ map MatchCall [i..<i + k + 1] @ [ParseCall (i + k)]\<rparr>)
      else (Some ParseError, v, c\<lparr>pcalls := pcalls c @ map MatchCall [i..<i + length ps]\<rparr>))"
proof (induction ps arbitrary: i c)
  case Nil
  then show ?case by simp
next
  case (Cons p ps)
  let ?c1 = "c\<lparr>pcalls := pcalls c @ [MatchCall i]\<rparr>"
  show ?case
  proof (cases "Match p (Request c)")
    case True
    then show ?thesis by (simp add: Let_def split: prod.splits)
  next
    case False
    let ?k = "length (takeWhile (\<lambda>p. \<not> Match p (Request c)) ps)"
    have u1: "[i..<i + Suc ?k + 1] = i # [Suc i..<Suc i + ?k + 1]"
      by (simp add: upt_rec)
    have u2: "[i..<i + length (p # ps)] = i # [Suc i..<Suc i + length ps]"
      by (simp add: upt_rec)
    have step: "Parsers_Parse_from i (p # ps) c v = Parsers_Parse_from (Suc i) ps ?c1 v"
      using False by (simp add: Let_def)
    have tw: "length (takeWhile (\<lambda>p. \<not> Match p (Request c)) (p # ps)) = Suc ?k"
      using False by simp
    show ?thesis
      unfolding step Cons.IH tw Let_def
      using u1 u2 by (simp del: upt_Suc)
  qed
qed

lemma takeWhile_first:
  assumes "i < length ps" "P (ps ! i)" "\<forall>j<i. \<not> P (ps ! j)"
  shows "length (takeWhile (\<lambda>p. \<not> P p) ps) = i"
proof -
  have "takeWhile (\<lambda>p. \<not> P p) ps = take i ps"
    using assms by (intro takeWhile_eq_take_P_nth) auto
  then show ?thesis using assms by simp
qed

lemma takeWhile_none:
  assumes "\<forall>p\<in>set ps. \<not> P p"
  shows "length (takeWhile (\<lambda>p. \<not> P p) ps) = length ps"
  using assms by (simp add: takeWhile_eq_all_conv[THEN iffD2])

lemmas example_defs = json_request_state_def text_request_state_def Engine_builtin_def
  Engine_plain_def Context_zero_def init_def FormParser_def JsonParser_def
  MultipartFormParser_def ToLower_ascii_def minePostForm_def mimeJson_def
  mimeMultipartPostForm_def

text \<open>
  C5. \<^verbatim>\<open>Parsers.Parse\<close> asks the parsers in list order whether they match. The first parser
  that matches (position \<open>i\<close>: it matches and no earlier one does) decodes, and its result,
  error or not, is the result; the calls made are \<open>Match\<close> of the positions \<open>0..i\<close> and
  \<open>Parse\<close> of position \<open>i\<close>, so no later parser is asked. When no parser matches, every
  parser was asked once, none decoded, and the result is \<open>ParseError\<close> with the destination
  as it was. A nil list gives \<open>ParseError\<close> at once.
\<close>

theorem Parsers_Parse_first_match:
  "(\<forall>i. i < length ps \<and> Match (ps ! i) (Request c) \<and> (\<forall>j<i. \<not> Match (ps ! j) (Request c)) \<longrightarrow>
        Parsers_Parse (Some ps) c v =
          (fst (Parse (ps ! i) (Request c) v), snd (Parse (ps ! i) (Request c) v),
           c\<lparr>pcalls := pcalls c @ map MatchCall [0..<Suc i] @ [ParseCall i]\<rparr>)) \<and>
   ((\<forall>p\<in>set ps. \<not> Match p (Request c)) \<longrightarrow>
        Parsers_Parse (Some ps) c v =
          (Some ParseError, v, c\<lparr>pcalls := pcalls c @ map MatchCall [0..<length ps]\<rparr>)) \<and>
   Parsers_Parse None c v = (Some ParseError, v, c)"
proof (intro conjI allI impI)
  fix i
  assume a: "i < length ps \<and> Match (ps ! i) (Request c) \<and> (\<forall>j<i. \<not> Match (ps ! j) (Request c))"
  then have k: "length (takeWhile (\<lambda>p. \<not> Match p (Request c)) ps) = i"
    by (intro takeWhile_first) auto
  show "Parsers_Parse (Some ps) c v =
          (fst (Parse (ps ! i) (Request c) v), snd (Parse (ps ! i) (Request c) v),
           c\<lparr>pcalls := pcalls c @ map MatchCall [0..<Suc i] @ [ParseCall i]\<rparr>)"
    using a by (simp add: Parsers_Parse_def Parsers_Parse_from_eq k del: upt_Suc)
next
  assume a: "\<forall>p\<in>set ps. \<not> Match p (Request c)"
  then have k: "length (takeWhile (\<lambda>p. \<not> Match p (Request c)) ps) = length ps"
    by (rule takeWhile_none)
  show "Parsers_Parse (Some ps) c v =
          (Some ParseError, v, c\<lparr>pcalls := pcalls c @ map MatchCall [0..<length ps]\<rparr>)"
    by (simp add: Parsers_Parse_def Parsers_Parse_from_eq k)
next
  show "Parsers_Parse None c v = (Some ParseError, v, c)"
    by (simp add: Parsers_Parse_def)
qed

text \<open>
  On the built-in list a JSON request is declined by the form parser and decoded by the
  JSON parser, the multipart parser is never asked; a \<^verbatim>\<open>text/plain\<close> request is declined by
  all three.
\<close>

theorem Parsers_Parse_first_match_witness:
  "Parsers_Parse (Engine_ContextParser Engine_builtin) json_request_state ''''
     = (None, ''json'', json_request_state\<lparr>pcalls := [MatchCall 0, MatchCall 1, ParseCall 1]\<rparr>) \<and>
   Parsers_Parse (Engine_ContextParser Engine_builtin) text_request_state ''''
     = (Some ParseError, '''', text_request_state\<lparr>pcalls := [MatchCall 0, MatchCall 1, MatchCall 2]\<rparr>)"
proof -
  let ?ps = "[FormParser (\<lambda>r v. (None, ''form'')), JsonParser (\<lambda>r v. (None, ''json'')),
              MultipartFormParser (\<lambda>r v. (None, ''multipart''))] :: string parser list"
  have e: "Engine_ContextParser Engine_builtin = Some ?ps"
    by (simp add: Engine_builtin_def Engine_plain_def)
  have m: "1 < length ?ps \<and> Match (?ps ! 1) (Request json_request_state) \<and>
           (\<forall>j<1. \<not> Match (?ps ! j) (Request json_request_state))"
    by (simp add: example_defs)
  have n: "\<forall>p\<in>set ?ps. \<not> Match p (Request text_request_state)"
    by (simp add: example_defs)
  from Parsers_Parse_first_match [of ?ps json_request_state "''''", THEN conjunct1, THEN spec, THEN mp, OF m]
  have 1: "Parsers_Parse (Some ?ps) json_request_state ''''
      = (None, ''json'', json_request_state\<lparr>pcalls := [MatchCall 0, MatchCall 1, ParseCall 1]\<rparr>)"
    by (simp add: example_defs)
  from Parsers_Parse_first_match [of ?ps text_request_state "''''", THEN conjunct2, THEN conjunct1, THEN mp, OF n]
  have 2: "Parsers_Parse (Some ?ps) text_request_state ''''
      = (Some ParseError, '''', text_request_state\<lparr>pcalls := [MatchCall 0, MatchCall 1, MatchCall 2]\<rparr>)"
    by (simp add: example_defs)
  show ?thesis unfolding e using 1 2 by simp
qed

section \<open>Decoding and validating\<close>

text \<open>Dispatch changes nothing of the state but the record of calls, and never validates.\<close>

lemma Parsers_Parse_frame:
  "\<exists>cs. snd (snd (Parsers_Parse p c v)) = c\<lparr>pcalls := pcalls c @ cs\<rparr> \<and> ValidateCall \<notin> set cs"
  by (auto simp: Parsers_Parse_def Parsers_Parse_from_eq Let_def)

text \<open>\<^verbatim>\<open>Data\<close> by the result of its dispatch.\<close>

lemma Data_cases:
  assumes "used = (if Parsers c = None then Engine_ContextParser (Engine c) else Parsers c)"
      and "Parsers_Parse used (c\<lparr>Parsers := used\<rparr>) v = (r, v', c2)"
  shows "Data v c =
     (case r of
        Some err \<Rightarrow> (Inr (Some err, v'), c2)
      | None \<Rightarrow>
          (case Validator c of
             None \<Rightarrow> (Inl (Fault ''nil pointer dereference''), c2)
           | Some validate \<Rightarrow> (Inr (validate v', v'), c2\<lparr>pcalls := pcalls c2 @ [ValidateCall]\<rparr>)))"
proof -
  let ?c1 = "if Parsers c = None then c\<lparr>Parsers := Engine_ContextParser (Engine c)\<rparr> else c"
  have c1: "?c1 = c\<lparr>Parsers := used\<rparr>" and p1: "Parsers ?c1 = used"
    using assms(1) by auto
  obtain cs where "c2 = c\<lparr>Parsers := used, pcalls := pcalls c @ cs\<rparr>"
    using Parsers_Parse_frame [of used "c\<lparr>Parsers := used\<rparr>" v] assms(2) by auto
  then have val: "Validator c2 = Validator c"
    by simp
  have "Parsers_Parse (Parsers ?c1) ?c1 v = (r, v', c2)"
    by (subst p1, subst c1, rule assms(2))
  then have "Data v c =
      (case (r, v', c2) of
         (Some err, v', c2) \<Rightarrow> (Inr (Some err, v'), c2)
       | (None, v', c2) \<Rightarrow>
           (case Validator c2 of
              None \<Rightarrow> (Inl (Fault ''nil pointer dereference''), c2)
            | Some validate \<Rightarrow> (Inr (validate v', v'), c2\<lparr>pcalls := pcalls c2 @ [ValidateCall]\<rparr>)))"
    by (simp only: Data_def Let_def)
  then show ?thesis
    by (simp add: val split: option.splits)
qed

text \<open>
  C6. \<^verbatim>\<open>Data\<close> dispatches over the engine's default list exactly when the request's own
  list is nil, and over the request's list otherwise. A decode error is the result, and the
  validator is not called. Only after a successful decode is the validator called on the
  destination, and its answer is the result. (With no validator set, the call after a
  successful decode is Go's nil dereference.)
\<close>

theorem Data_parse_then_validate:
  assumes "used = (if Parsers c = None then Engine_ContextParser (Engine c) else Parsers c)"
      and "Parsers_Parse used (c\<lparr>Parsers := used\<rparr>) v = (r, v', c2)"
  shows "(\<forall>err. r = Some err \<longrightarrow>
            Data v c = (Inr (Some err, v'), c2) \<and> ValidateCall \<notin> set (calls_since c c2)) \<and>
         (\<forall>validate. r = None \<and> Validator c = Some validate \<longrightarrow>
            Data v c = (Inr (validate v', v'), c2\<lparr>pcalls := pcalls c2 @ [ValidateCall]\<rparr>)) \<and>
         (r = None \<and> Validator c = None \<longrightarrow>
            Data v c = (Inl (Fault ''nil pointer dereference''), c2))"
proof -
  obtain cs where cs: "c2 = c\<lparr>Parsers := used, pcalls := pcalls c @ cs\<rparr>" "ValidateCall \<notin> set cs"
    using Parsers_Parse_frame [of used "c\<lparr>Parsers := used\<rparr>" v] assms(2) by auto
  have since: "calls_since c c2 = cs"
    using cs(1) by (simp add: calls_since_def)
  show ?thesis
    unfolding Data_cases [OF assms] using cs(2) by (simp add: since)
qed

text \<open>Unfolding the methods on concrete states.\<close>

lemmas method_defs = word_le_nat_alt Abort_def AbortWith_def SetAbort_def IsAborted_def AbortHandler_def
  start_def Escape_def AddParser_def request_state_def

text \<open>
  A JSON request is decoded and then validated; a \<^verbatim>\<open>text/plain\<close> request fails with
  \<open>ParseError\<close> and no validation.
\<close>

theorem Data_parse_then_validate_witness:
  "Data '''' json_request_state =
     (Inr (None, ''json''),
      json_request_state\<lparr>Parsers := Engine_ContextParser Engine_builtin,
                          pcalls := [MatchCall 0, MatchCall 1, ParseCall 1, ValidateCall]\<rparr>) \<and>
   Data '''' text_request_state =
     (Inr (Some ParseError, ''''),
      text_request_state\<lparr>Parsers := Engine_ContextParser Engine_builtin,
                          pcalls := [MatchCall 0, MatchCall 1, MatchCall 2]\<rparr>)"
proof -
  let ?used = "Engine_ContextParser Engine_builtin"
  let ?j2 = "json_request_state\<lparr>Parsers := ?used, pcalls := [MatchCall 0, MatchCall 1, ParseCall 1]\<rparr>"
  let ?t2 = "text_request_state\<lparr>Parsers := ?used, pcalls := [MatchCall 0, MatchCall 1, MatchCall 2]\<rparr>"
  have uj: "?used = (if Parsers json_request_state = None
                     then Engine_ContextParser (Engine json_request_state)
                     else Parsers json_request_state)"
    by (simp add: example_defs)
  have ut: "?used = (if Parsers text_request_state = None
                     then Engine_ContextParser (Engine text_request_state)
                     else Parsers text_request_state)"
    by (simp add: example_defs)
  have pj: "Parsers_Parse ?used (json_request_state\<lparr>Parsers := ?used\<rparr>) '''' = (None, ''json'', ?j2)"
    by (simp add: example_defs Parsers_Parse_def)
  have pt: "Parsers_Parse ?used (text_request_state\<lparr>Parsers := ?used\<rparr>) '''' = (Some ParseError, '''', ?t2)"
    by (simp add: example_defs Parsers_Parse_def)
  have vj: "Validator json_request_state = Some (\<lambda>v. None)"
    by (simp add: example_defs)
  from Data_parse_then_validate [OF uj pj] vj
  have 1: "Data '''' json_request_state = (Inr (None, ''json''), ?j2\<lparr>pcalls := pcalls ?j2 @ [ValidateCall]\<rparr>)"
    by simp
  from Data_parse_then_validate [OF ut pt]
  have 2: "Data '''' text_request_state = (Inr (Some ParseError, ''''), ?t2)"
    by simp
  show ?thesis using 1 2 by simp
qed

section \<open>The query cache\<close>

text \<open>
  C9. Whatever \<^verbatim>\<open>Query\<close> returned, a later call returns the same value, also after the
  request (so its raw query) was replaced and whatever the library would now parse. On a
  state with an empty cache the value returned is the parse of the raw query, and it is
  cached.
\<close>

theorem Query_memoized:
  assumes "Query URL_Query c = (q, c1)"
  shows "Query URL_Query' (c1\<lparr>Request := req'\<rparr>) = (q, c1\<lparr>Request := req'\<rparr>) \<and>
         (queryCache c = None \<longrightarrow> q = URL_Query (URL_RawQuery (Request c)) \<and> queryCache c1 = Some q)"
  using assms by (auto simp: Query_def Let_def split: option.splits)

text \<open>The raw query \<^verbatim>\<open>a=1\<close> is parsed once; after it became \<^verbatim>\<open>b=2\<close> the answer is unchanged.\<close>

theorem Query_memoized_witness:
  "Query (\<lambda>raw. [(raw, [])]) json_request_state
     = ([(''a=1'', [])], json_request_state\<lparr>queryCache := Some [(''a=1'', [])]\<rparr>) \<and>
   Query (\<lambda>raw. [(raw, [])])
       (json_request_state\<lparr>queryCache := Some [(''a=1'', [])],
                           Request := \<lparr>Header_ContentType = ''application/json'', URL_RawQuery = ''b=2''\<rparr>\<rparr>)
     = ([(''a=1'', [])],
        json_request_state\<lparr>queryCache := Some [(''a=1'', [])],
                           Request := \<lparr>Header_ContentType = ''application/json'', URL_RawQuery = ''b=2''\<rparr>\<rparr>)"
proof -
  have q: "Query (\<lambda>raw. [(raw, [])]) json_request_state
     = ([(''a=1'', [])], json_request_state\<lparr>queryCache := Some [(''a=1'', [])]\<rparr>)"
  proof -
    have "queryCache json_request_state = None"
      and "URL_RawQuery (Request json_request_state) = ''a=1''"
      by (simp_all add: json_request_state_def init_def Context_zero_def)
    then show ?thesis by (simp add: Query_def Let_def)
  qed
  from Query_memoized [OF q, of "\<lambda>raw. [(raw, [])]"
      "\<lparr>Header_ContentType = ''application/json'', URL_RawQuery = ''b=2''\<rparr>"] q
  show ?thesis by simp
qed

section \<open>The fault catcher of \<^verbatim>\<open>start\<close>\<close>

text \<open>
  C8. When \<^verbatim>\<open>Next\<close> unwinds with an \<^verbatim>\<open>Exit\<close>, \<^verbatim>\<open>start\<close> runs that value's \<^verbatim>\<open>Exit\<close> method on
  the state as the panic left it, and ends as that method ends (normally, if it returns).
  When \<^verbatim>\<open>Next\<close> unwinds with any other value, \<^verbatim>\<open>start\<close> panics with the same value on the
  same state. When \<^verbatim>\<open>Next\<close> returns, so does \<^verbatim>\<open>start\<close>.
\<close>

theorem start_recover_selective:
  "(\<forall>e c'. Next n c = Panicked (ExitSignal e) c' \<longrightarrow> start n c = run_handler n (Exit_body e) c') \<and>
   (\<forall>x c'. Next n c = Panicked (Fault x) c' \<longrightarrow> start n c = Panicked (Fault x) c') \<and>
   (\<forall>c'. Next n c = Returned c' \<longrightarrow> start n c = Returned c')"
  by (simp add: start_def)

text \<open>
  An abort whose \<^verbatim>\<open>Exit\<close> marks the state as escaped: \<^verbatim>\<open>start\<close> returns and the mark is set.
  A handler that panics with a string: \<^verbatim>\<open>start\<close> panics with that string.
\<close>

theorem start_recover_selective_witness:
  "start 2 (request_state [[CallAbortWith (ExitFunc [CallEscape])], []] :: nat ctx)
     = Returned (request_state [[CallAbortWith (ExitFunc [CallEscape])], []]
                  \<lparr>index := 1, invoked := [0], abortWrites := 1, escape := True\<rparr>) \<and>
   start 2 (request_state [[CallPanic ''boom''], []] :: nat ctx)
     = Panicked (Fault ''boom'') (request_state [[CallPanic ''boom''], []]\<lparr>index := 1, invoked := [0]\<rparr>)"
proof -
  let ?a = "request_state [[CallAbortWith (ExitFunc [CallEscape])], []] :: nat ctx"
  let ?b = "request_state [[CallPanic ''boom''], []] :: nat ctx"
  have a: "Next 2 ?a = Panicked (ExitSignal (ExitFunc [CallEscape])) (?a\<lparr>index := 1, invoked := [0], abortWrites := 1\<rparr>)"
    by (simp add: method_defs example_defs)
  have b: "Next 2 ?b = Panicked (Fault ''boom'') (?b\<lparr>index := 1, invoked := [0]\<rparr>)"
    by (simp add: method_defs example_defs)
  from start_recover_selective [of 2 ?a, THEN conjunct1, THEN spec, THEN spec, THEN mp, OF a]
  have 1: "start 2 ?a = Returned (?a\<lparr>index := 1, invoked := [0], abortWrites := 1, escape := True\<rparr>)"
    by (simp add: Escape_def)
  from start_recover_selective [of 2 ?b, THEN conjunct2, THEN conjunct1, THEN spec, THEN spec, THEN mp, OF b]
  have 2: "start 2 ?b = Panicked (Fault ''boom'') (?b\<lparr>index := 1, invoked := [0]\<rparr>)" .
  show ?thesis using 1 2 by simp
qed

section \<open>Reset and reuse\<close>

text \<open>What \<^verbatim>\<open>reset\<close> clears, and that the map it puts back into the pool is empty.\<close>

lemma reset_clears:
  "index (fst (reset c pool)) = 0 \<and> Parsers (fst (reset c pool)) = None \<and>
   \<not> matched (fst (reset c pool)) \<and> queryCache (fst (reset c pool)) = None \<and>
   formCache (fst (reset c pool)) = None \<and> contextValue (fst (reset c pool)) = None \<and>
   snd (reset c pool) = (case contextValue c of None \<Rightarrow> pool | Some m \<Rightarrow> Map.empty # pool)"
  by (simp add: reset_def Let_def split: option.splits)

text \<open>\<^verbatim>\<open>reset\<close> and \<^verbatim>\<open>init\<close> do not assign \<^verbatim>\<open>abortIndex\<close>.\<close>

lemma reset_init_abortIndex:
  "abortIndex (init req writer params grp (fst (reset c pool))) = abortIndex c"
  by (simp add: reset_def init_def Let_def split: option.splits)

text \<open>
  C2. A request whose second handler aborts leaves the abort position 1. After \<^verbatim>\<open>reset\<close> and
  \<^verbatim>\<open>init\<close> for the next request (a chain of one handler) the cursor is 0 and the caches are
  nil, but the abort position is still 1: the new request counts as aborted before any
  handler ran, and \<^verbatim>\<open>AbortHandler\<close> indexes past its chain.
\<close>

theorem reset_keeps_abort_position:
  "abortIndex (state_of (start 2 (request_state [[], [CallAbort]] :: nat ctx))) = 1 \<and>
   (let c = init \<lparr>Header_ContentType = [], URL_RawQuery = []\<rparr> [] [] [[]]
              (fst (reset (state_of (start 2 (request_state [[], [CallAbort]] :: nat ctx))) []))
    in index c = 0 \<and> queryCache c = None \<and> formCache c = None \<and> contextValue c = None \<and>
       abortIndex c = 1 \<and> IsAborted c \<and> AbortHandler c = Inl (Fault ''index out of range''))"
  by (simp add: method_defs example_defs reset_def Let_def)

section \<open>Adding parsers\<close>

text \<open>
  The list in the state is what the request's slice holds: for a slice that lies within its
  array, the elements after \<^verbatim>\<open>append\<close> are the elements before, followed by the new ones,
  whether the array was reused or not; and the slice returned is nil exactly when nothing
  was appended to a nil slice, as in \<open>append_slice\<close>.
\<close>

lemma go_append_elems:
  assumes "case s of None \<Rightarrow> True | Some h \<Rightarrow> slice_len h \<le> length (arrs (slice_array h))"
  shows "slice_elems (fst (go_append new arrs s p)) (snd (go_append new arrs s p)) =
           slice_elems arrs s @ map Some p"
  using assms by (cases s) (simp_all add: go_append_def slice_elems_def)

lemma go_append_nil:
  "(snd (go_append new arrs s p) = None) = (s = None \<and> p = [])"
  by (cases s) (simp_all add: go_append_def)

text \<open>
  C3 at \<^verbatim>\<open>AddParser\<close> before \<^verbatim>\<open>Data\<close>. On a fresh JSON request whose engine offers the built-in
  parsers, a handler adds an XML parser. The request's list is then the XML parser alone:
  \<^verbatim>\<open>Data\<close> asks only that parser and fails with \<open>ParseError\<close>, although the list "added
  parser, then the defaults" would have decoded the body with the JSON parser, and so does
  \<^verbatim>\<open>Data\<close> without the added parser. In the other order, \<^verbatim>\<open>Data\<close> first and \<^verbatim>\<open>AddParser\<close> after
  it, the request's list is the defaults followed by the XML parser, and \<^verbatim>\<open>Data\<close> decodes.
\<close>

theorem AddParser_before_Data_drops_defaults:
  "Parsers (AddParser [XmlParser_example] json_request_state) = Some [XmlParser_example] \<and>
   fst (Data '''' (AddParser [XmlParser_example] json_request_state)) = Inr (Some ParseError, '''') \<and>
   calls_since json_request_state (snd (Data '''' (AddParser [XmlParser_example] json_request_state)))
     = [MatchCall 0] \<and>
   fst (Parsers_Parse
          (Some (XmlParser_example # the (Engine_ContextParser (Engine json_request_state))))
          json_request_state '''') = None \<and>
   fst (Data '''' json_request_state) = Inr (None, ''json'') \<and>
   Parsers (AddParser [XmlParser_example] (snd (Data '''' json_request_state)))
     = Some (the (Engine_ContextParser Engine_builtin) @ [XmlParser_example]) \<and>
   fst (Data '''' (AddParser [XmlParser_example] (snd (Data '''' json_request_state))))
     = Inr (None, ''json'')"
  by (simp add: method_defs example_defs XmlParser_example_def Data_def Parsers_Parse_def calls_since_def)

text \<open>
  \<^verbatim>\<open>AddParser\<close> after \<^verbatim>\<open>Data\<close>, on an engine whose slice of three parsers has room for a
  fourth (array 0, length 3, capacity 4). Two requests hold a copy of the engine's header.
  The first adds parser 10: it is written into cell 3 of the engine's array. The second adds
  parser 20: the same cell is overwritten, and the list of the first request now ends with
  parser 20. The engine's own three elements stay.
\<close>

lemma AddParser_shared_array:
  "(let engine_header = Some \<lparr>slice_array = 0, slice_len = 3, slice_cap = 4\<rparr>;
        arrs0 = (\<lambda>a. []) (0 := [Some 1, Some 2, Some 3, None :: nat option]);
        (arrs1, first) = AddParser_arrays 1 [10] (arrs0, engine_header);
        (arrs2, second) = AddParser_arrays 2 [20] (arrs1, engine_header)
    in slice_elems arrs1 first = [Some 1, Some 2, Some 3, Some 10] \<and>
       slice_elems arrs2 first = [Some 1, Some 2, Some 3, Some 20] \<and>
       slice_elems arrs2 second = [Some 1, Some 2, Some 3, Some 20] \<and>
       slice_elems arrs2 engine_header = [Some 1, Some 2, Some 3] \<and>
       arrs2 0 = [Some 1, Some 2, Some 3, Some 20])"
  by (simp add: AddParser_arrays_def go_append_def slice_elems_def)

section \<open>Abort in the first handler\<close>

text \<open>
  C1 at the first position. The first of two handlers calls \<^verbatim>\<open>Abort\<close>: the second is not
  invoked and \<^verbatim>\<open>abortIndex\<close> is assigned once, but the value assigned is \<^verbatim>\<open>index - 1 = 0\<close>,
  which \<^verbatim>\<open>IsAborted\<close> reads as "not aborted"; \<^verbatim>\<open>AbortHandler\<close> returns nil.
\<close>

theorem Abort_in_first_handler_not_recorded:
  "(let c = state_of (start 2 (request_state [[CallAbort], []] :: nat ctx))
    in invoked c = [0] \<and> abortWrites c = 1 \<and> abortIndex c = 0 \<and>
       \<not> IsAborted c \<and> AbortHandler c = Inr None)"
  by (simp add: method_defs example_defs Let_def)

end
